theory Spec2Isabelle
  imports Complex_Main "HOL-Library.Sublist" "HOL-Library.Char_ord" "HOL-Library.List_Lexorder"
begin

section \<open>Transaction ledger (crew\_ai/transactions.py)\<close>

subsection \<open>Binary64 amounts\<close>

text \<open>
  The ledger stores amounts in a \<^verbatim>\<open>REAL\<close> column and Python hands them over as
  \<^verbatim>\<open>float\<close>, so every amount is an IEEE binary64 number. A finite binary64 number is a
  rational, and the result of an arithmetic operation is the exact result rounded to 53
  significant bits, ties to even. \<open>fl64\<close> is that rounding on the rationals (with the
  subnormal spacing below \<open>2 powi - 1022\<close>); overflow to infinity and NaN are outside the
  model.
\<close>

function bit_length :: "int \<Rightarrow> int" where
  "bit_length n = (if n \<le> 0 then 0 else 1 + bit_length (n div 2))"
  by pat_completeness auto
termination
  by (relation "measure nat") auto

declare bit_length.simps [simp del]

definition round_half_even :: "rat \<Rightarrow> int" where
  "round_half_even m =
     (let f = \<lfloor>m\<rfloor>; r = m - of_int f
      in if r < 1 / 2 then f else if 1 / 2 < r then f + 1 else if even f then f else f + 1)"

text \<open>\<open>float_exponent x\<close> is the \<open>e\<close> with \<open>2 powi e \<le> \<bar>x\<bar> < 2 powi (e + 1)\<close>, for \<open>x \<noteq> 0\<close>.\<close>

definition float_exponent :: "rat \<Rightarrow> int" where
  "float_exponent x =
     (let (p, q) = quotient_of \<bar>x\<bar>;
          e = bit_length p - bit_length q
      in if 2 powi e \<le> \<bar>x\<bar> then e else e - 1)"

definition fl64 :: "rat \<Rightarrow> rat" where
  "fl64 x =
     (if x = 0 then 0
      else let q = 2 powi (max (float_exponent x) (- 1022) - 52)
           in of_int (round_half_even (x / q)) * q)"

subsection \<open>The table and its operations\<close>

text \<open>
  One row of the \<^verbatim>\<open>transactions\<close> table. The columns \<^verbatim>\<open>id\<close> and \<^verbatim>\<open>type\<close> are
  \<open>row_id\<close> and \<open>txn_type\<close> here. Timestamps are \<^verbatim>\<open>TEXT\<close>: SQLite compares them bytewise,
  which is the lexicographic order on \<open>string\<close>.
\<close>

record txn_row =
  row_id :: int
  account_id :: string
  amount :: rat
  txn_type :: string
  description :: "string option"
  timestamp :: string

text \<open>
  The database file: the table (\<open>None\<close> until \<^verbatim>\<open>init_db\<close> has created it), its rows in
  rowid order, and the largest rowid handed out so far (\<^verbatim>\<open>AUTOINCREMENT\<close>).
\<close>

record ledger =
  transactions :: "txn_row list option"
  sqlite_sequence :: int

datatype db_error = OperationalError

definition stored_rows :: "ledger \<Rightarrow> txn_row list" where
  "stored_rows db = (case transactions db of None \<Rightarrow> [] | Some rows \<Rightarrow> rows)"

definition init_db :: "ledger \<Rightarrow> ledger" where
  "init_db db = (case transactions db of None \<Rightarrow> db\<lparr>transactions := Some []\<rparr> | Some rows \<Rightarrow> db)"








text \<open>
  \<^verbatim>\<open>SUM(amount)\<close> is \<^verbatim>\<open>NULL\<close> over no rows, and the binary64 sum of the amounts in rowid
  order otherwise. (Newer SQLite versions keep a compensation term beside the running
  sum; the two agree whenever no partial sum is rounded.)
\<close>

definition sql_sum :: "rat list \<Rightarrow> rat option" where
  "sql_sum xs = (if xs = [] then None else Some (foldl (\<lambda>s x. fl64 (s + x)) 0 xs))"

text \<open>\<^verbatim>\<open>float(row["balance"] or 0.0)\<close>: \<^verbatim>\<open>None\<close> and \<^verbatim>\<open>0.0\<close> are both falsy.\<close>

definition get_balance :: "ledger \<Rightarrow> string \<Rightarrow> db_error + rat" where
  "get_balance db acct =
     (case transactions db of
        None \<Rightarrow> Inl OperationalError
      | Some rows \<Rightarrow>
          Inr (case sql_sum (map amount (filter (\<lambda>r. account_id r = acct) rows)) of
                 None \<Rightarrow> 0
               | Some b \<Rightarrow> if b = 0 then 0 else b))"

section \<open>Filesystem vector store (crew\_ai/backends/faiss\_backend.py)\<close>

text \<open>
  Embedding entries are modelled as real numbers: the rounding of the backend's
  \<^verbatim>\<open>float32\<close> arithmetic is not part of the model.
\<close>

datatype py_error =
  ImportError | IndexError | ValueError | AxisError | AssertionError

subsection \<open>The files of one collection\<close>

text \<open>
  A file is absent, present but unreadable (the loaders treat a failed parse like an
  absent file), or holds a value. The serialized index holds its dimension \<^verbatim>\<open>d\<close> and its
  rows; \<^verbatim>\<open>ntotal\<close> is the number of rows.
\<close>

datatype 'a disk_file = Absent | Corrupt | Stored 'a

record faiss_index =
  idx_d :: nat
  idx_rows :: "real list list"

definition ntotal :: "faiss_index \<Rightarrow> nat" where
  "ntotal idx = length (idx_rows idx)"

record 'm collection =
  index_file :: "faiss_index disk_file"
  ids_file :: "string list disk_file"
  texts_file :: "string list disk_file"
  metas_file :: "'m list disk_file"

text \<open>\<^verbatim>\<open>get_or_create_collection\<close> only computes paths; a new collection has no files.\<close>

definition new_collection :: "'m collection" where
  "new_collection =
     \<lparr>index_file = Absent, ids_file = Absent, texts_file = Absent, metas_file = Absent\<rparr>"

definition load_index :: "'m collection \<Rightarrow> faiss_index option" where
  "load_index fs = (case index_file fs of Stored idx \<Rightarrow> Some idx | _ \<Rightarrow> None)"

definition load_list :: "'a list disk_file \<Rightarrow> 'a list" where
  "load_list f = (case f of Stored xs \<Rightarrow> xs | _ \<Rightarrow> [])"

definition load_ids_texts_metas :: "'m collection \<Rightarrow> string list \<times> string list \<times> 'm list" where
  "load_ids_texts_metas fs =
     (load_list (ids_file fs), load_list (texts_file fs), load_list (metas_file fs))"

subsection \<open>Arrays and norms\<close>

text \<open>
  \<^verbatim>\<open>np.array\<close> of a list of rows: rows of different lengths are refused. The empty list
  gives an empty one-dimensional array, which has no second axis.
\<close>

definition np_array :: "real list list \<Rightarrow> py_error + real list list" where
  "np_array rows =
     (case rows of
        [] \<Rightarrow> Inr []
      | r # rs \<Rightarrow> if list_all (\<lambda>x. length x = length r) rs then Inr rows else Inl ValueError)"

definition l2_norm :: "real list \<Rightarrow> real" where
  "l2_norm v = sqrt (sum_list (map (\<lambda>x. x\<^sup>2) v))"

text \<open>\<^verbatim>\<open>norms[norms == 0] = 1.0\<close> in \<^verbatim>\<open>add\<close>, \<^verbatim>\<open>if qnorm == 0: qnorm = 1.0\<close> in \<^verbatim>\<open>query\<close>.\<close>

definition clamp_norm :: "real \<Rightarrow> real" where
  "clamp_norm n = (if n = 0 then 1 else n)"

definition l2_normalize :: "real list \<Rightarrow> real list" where
  "l2_normalize v = (let n = clamp_norm (l2_norm v) in map (\<lambda>x. x / n) v)"

definition normalize_rows :: "real list list \<Rightarrow> real list list" where
  "normalize_rows embs = map l2_normalize embs"

subsection \<open>The index\<close>

definition IndexFlatIP :: "nat \<Rightarrow> faiss_index" where
  "IndexFlatIP dimn = \<lparr>idx_d = dimn, idx_rows = []\<rparr>"

definition index_add :: "faiss_index \<Rightarrow> real list list \<Rightarrow> faiss_index" where
  "index_add idx embs = idx\<lparr>idx_rows := idx_rows idx @ embs\<rparr>"

definition dot :: "real list \<Rightarrow> real list \<Rightarrow> real" where
  "dot u v = sum_list (map2 (*) u v)"

text \<open>
  The search of the index is the library's. The backend's functions take it as the
  parameter \<open>srch\<close>: given the index, the query row and \<open>k\<close> it raises or returns the
  (score, position) pairs \<^verbatim>\<open>zip(D[0], I[0])\<close>. \<open>flat_ip_search\<close> is the exact inner-product
  search of a flat index: the \<open>k\<close> best rows, best first, filled up to \<open>k\<close> entries with the
  position \<open>-1\<close>; it refuses a query of another dimension and a \<open>k\<close> that is not positive.
\<close>

type_synonym searcher = "faiss_index \<Rightarrow> real list \<Rightarrow> int \<Rightarrow> py_error + (real \<times> int) list"

fun insert_best :: "real \<times> int \<Rightarrow> (real \<times> int) list \<Rightarrow> (real \<times> int) list" where
  "insert_best x [] = [x]"
| "insert_best x (y # ys) = (if fst y < fst x then x # y # ys else y # insert_best x ys)"

definition best_first :: "(real \<times> int) list \<Rightarrow> (real \<times> int) list" where
  "best_first xs = foldl (\<lambda>acc x. insert_best x acc) [] xs"

definition flat_ip_search :: searcher where
  "flat_ip_search idx q k =
     (if length q \<noteq> idx_d idx then Inl AssertionError
      else if k \<le> 0 then Inl AssertionError
      else let scored = zip (map (\<lambda>row. dot row q) (idx_rows idx)) (map int [0..<ntotal idx]);
               found = take (nat k) (best_first scored)
           in Inr (found @ replicate (nat k - length found)
                             (- 340282346638528859811704183484516925440, - 1)))"

subsection \<open>add\<close>

definition ncols :: "real list list \<Rightarrow> nat" where
  "ncols rows = (case rows of [] \<Rightarrow> 0 | r # rs \<Rightarrow> length r)"

text \<open>
  \<open>av\<close> is the module's \<^verbatim>\<open>FAISS_AVAILABLE\<close>. The norm along axis 1 of an empty
  one-dimensional array raises. The writes at the end are taken to succeed: the index,
  then the three side-car files.
\<close>

definition add ::
  "bool \<Rightarrow> 'm collection \<Rightarrow> string list \<Rightarrow> string list \<Rightarrow> real list list \<Rightarrow> 'm list
     \<Rightarrow> py_error + 'm collection" where
  "add av fs ids texts embeddings metadatas =
     (if \<not> av then Inl ImportError
      else
        let idx = load_index fs;
            (ids_list, texts_list, metas_list) = load_ids_texts_metas fs
        in case np_array embeddings of
             Inl e \<Rightarrow> Inl e
           | Inr [] \<Rightarrow> Inl AxisError
           | Inr (r # rs) \<Rightarrow>
               let embs = normalize_rows (r # rs);
                   dimn = ncols embs;
                   idx1 = (case idx of
                             None \<Rightarrow> IndexFlatIP dimn
                           | Some i \<Rightarrow> if idx_d i \<noteq> dimn then IndexFlatIP dimn else i);
                   idx2 = index_add idx1 embs
               in Inr \<lparr>index_file = Stored idx2,
                       ids_file = Stored (ids_list @ ids),
                       texts_file = Stored (texts_list @ texts),
                       metas_file = Stored (metas_list @ metadatas)\<rparr>)"

subsection \<open>query\<close>

text \<open>One result: \<^verbatim>\<open>{"id": .., "text": .., "metadata": .., "score": ..}\<close>; \<open>None\<close> is Python's.\<close>

record 'm hit =
  hit_id :: "string option"
  hit_text :: "string option"
  hit_metadata :: "'m option"
  score :: real

text \<open>Python's \<^verbatim>\<open>xs[i]\<close>: a negative index counts from the end, any other miss raises.\<close>

definition py_getitem :: "'a list \<Rightarrow> int \<Rightarrow> py_error + 'a" where
  "py_getitem xs i =
     (let n = int (length xs); j = (if i < 0 then n + i else i)
      in if 0 \<le> j \<and> j < n then Inr (xs ! nat j) else Inl IndexError)"

text \<open>\<^verbatim>\<open>xs[pos] if pos < len(xs) else None\<close>\<close>

definition getitem_or_none :: "'a list \<Rightarrow> int \<Rightarrow> py_error + 'a option" where
  "getitem_or_none xs pos =
     (if pos < int (length xs)
      then (case py_getitem xs pos of Inl e \<Rightarrow> Inl e | Inr x \<Rightarrow> Inr (Some x))
      else Inr None)"

text \<open>The loop over \<^verbatim>\<open>zip(D[0], I[0])\<close> that builds \<^verbatim>\<open>results\<close>.\<close>

fun collect ::
  "string list \<Rightarrow> string list \<Rightarrow> 'm list \<Rightarrow> (real \<times> int) list \<Rightarrow> py_error + 'm hit list" where
  "collect ids_list texts_list metas_list [] = Inr []"
| "collect ids_list texts_list metas_list ((sc, pos) # rest) =
     (if pos < 0 then collect ids_list texts_list metas_list rest
      else case getitem_or_none ids_list pos of
        Inl e \<Rightarrow> Inl e
      | Inr doc_id \<Rightarrow>
         (case getitem_or_none texts_list pos of
            Inl e \<Rightarrow> Inl e
          | Inr txt \<Rightarrow>
             (case getitem_or_none metas_list pos of
                Inl e \<Rightarrow> Inl e
              | Inr meta \<Rightarrow>
                 (case collect ids_list texts_list metas_list rest of
                    Inl e \<Rightarrow> Inl e
                  | Inr results \<Rightarrow>
                      Inr (\<lparr>hit_id = doc_id, hit_text = txt, hit_metadata = meta,
                            score = sc\<rparr> # results)))))"

definition query ::
  "searcher \<Rightarrow> bool \<Rightarrow> 'm collection \<Rightarrow> real list \<Rightarrow> int \<Rightarrow> py_error + 'm hit list" where
  "query srch av fs embedding k =
     (if \<not> av then Inl ImportError
      else
        let idx = load_index fs;
            (ids_list, texts_list, metas_list) = load_ids_texts_metas fs
        in case idx of
             None \<Rightarrow> Inr []
           | Some i \<Rightarrow>
               if ntotal i = 0 then Inr []
               else case srch i (l2_normalize embedding) k of
                      Inl e \<Rightarrow> Inl e
                    | Inr found \<Rightarrow> collect ids_list texts_list metas_list found)"

text \<open>\<^verbatim>\<open>delete_collection\<close> removes the four files; a file it cannot remove is not modelled.\<close>

definition delete_collection :: "'m collection \<Rightarrow> 'm collection" where
  "delete_collection fs = new_collection"

subsection \<open>Sequences of add calls\<close>







text \<open>
  The result entry for a (score, position) pair with a position that is not negative:
  each field is the side-car entry at that position, or \<open>None\<close> past the end.
\<close>

definition hit_at :: "string list \<Rightarrow> string list \<Rightarrow> 'm list \<Rightarrow> real \<times> int \<Rightarrow> 'm hit" where
  "hit_at ids texts metas sp =
     \<lparr>hit_id = (if snd sp < int (length ids) then Some (ids ! nat (snd sp)) else None),
      hit_text = (if snd sp < int (length texts) then Some (texts ! nat (snd sp)) else None),
      hit_metadata = (if snd sp < int (length metas) then Some (metas ! nat (snd sp)) else None),
      score = fst sp\<rparr>"

section \<open>Retrieval manager (crew\_ai/rag.py)\<close>

text \<open>
  The state of one \<^verbatim>\<open>RAGManager\<close> in its process: the backend chosen by the constructor,
  the files behind the collection handle \<^verbatim>\<open>self._col\<close>, and the in-memory store
  (\<^verbatim>\<open>_ids\<close>, \<^verbatim>\<open>_texts\<close>, \<^verbatim>\<open>_metas\<close>, \<^verbatim>\<open>_vecs\<close>). \<open>faiss_available\<close> is the backend module's
  \<^verbatim>\<open>FAISS_AVAILABLE\<close>. \<open>embedder_calls\<close> records the argument of every call of the embedder,
  oldest first; nothing reads it. The embedder itself is the parameter \<open>embedder\<close> of the
  operations: a function from the texts of one call to the rows it returns.

  An operation returns what the method returns or raises, together with the state it
  leaves behind.
\<close>

datatype backend = Faiss | Memory

record 'm rag_manager =
  faiss_available :: bool
  backend :: backend
  col :: "'m collection"
  mem_ids :: "string list"
  mem_texts :: "string list"
  mem_metas :: "'m list"
  mem_vecs :: "real list list option"
  embedder_calls :: "string list list"

text \<open>
  \<^verbatim>\<open>__init__\<close>, on a storage directory whose files for the collection are \<open>fs\<close>:
  \<^verbatim>\<open>faiss_backend.client\<close> raises when the library is missing, and the manager then falls
  back to the in-memory store.
\<close>

definition rag_init :: "bool \<Rightarrow> 'm collection \<Rightarrow> 'm rag_manager" where
  "rag_init av fs =
     \<lparr>faiss_available = av, backend = (if av then Faiss else Memory), col = fs,
      mem_ids = [], mem_texts = [], mem_metas = [], mem_vecs = None, embedder_calls = []\<rparr>"

text \<open>
  \<^verbatim>\<open>np.vstack\<close> of two arrays given by their rows. An array without rows is the empty
  one-dimensional array here, which \<^verbatim>\<open>vstack\<close> reads as one row of length 0.
\<close>

definition np_vstack :: "real list list \<Rightarrow> real list list \<Rightarrow> py_error + real list list" where
  "np_vstack a b =
     (let a' = (if a = [] then [[]] else a); b' = (if b = [] then [[]] else b)
      in if ncols a' = ncols b' then Inr (a' @ b') else Inl ValueError)"

definition add_documents ::
  "(string list \<Rightarrow> real list list) \<Rightarrow> 'm rag_manager \<Rightarrow> (string \<times> string \<times> 'm) list
     \<Rightarrow> (py_error + unit) \<times> 'm rag_manager" where
  "add_documents embedder m docs =
     (if docs = [] then (Inr (), m)
      else
        let ids = map fst docs;
            texts = map (\<lambda>doc. fst (snd doc)) docs;
            metas = map (\<lambda>doc. snd (snd doc)) docs;
            m1 = m\<lparr>embedder_calls := embedder_calls m @ [texts]\<rparr>
        in case np_array (embedder texts) of
             Inl e \<Rightarrow> (Inl e, m1)
           | Inr vecs \<Rightarrow>
               if backend m1 = Faiss
               then (case add (faiss_available m1) (col m1) ids texts vecs metas of
                       Inl e \<Rightarrow> (Inl e, m1)
                     | Inr fs \<Rightarrow> (Inr (), m1\<lparr>col := fs\<rparr>))
               else
                 let m2 = m1\<lparr>mem_ids := mem_ids m1 @ ids, mem_texts := mem_texts m1 @ texts,
                              mem_metas := mem_metas m1 @ metas\<rparr>
                 in case mem_vecs m2 of
                      None \<Rightarrow> (Inr (), m2\<lparr>mem_vecs := Some vecs\<rparr>)
                    | Some old \<Rightarrow>
                        (case np_vstack old vecs of
                           Inl e \<Rightarrow> (Inl e, m2)
                         | Inr stacked \<Rightarrow> (Inr (), m2\<lparr>mem_vecs := Some stacked\<rparr>)))"

text \<open>\<^verbatim>\<open>xs[:k]\<close>: a negative \<open>k\<close> drops that many entries from the end.\<close>

definition py_take :: "int \<Rightarrow> 'a list \<Rightarrow> 'a list" where
  "py_take k xs = (if 0 \<le> k then take (nat k) xs else take (length xs - nat (- k)) xs)"

text \<open>
  \<^verbatim>\<open>np.argsort(-sims)\<close>: the positions by descending similarity. The order among equal
  similarities is the sorting routine's; here the lower position comes first.
\<close>

definition argsort_desc :: "real list \<Rightarrow> int list" where
  "argsort_desc sims = map snd (best_first (zip sims (map int [0..<length sims])))"

text \<open>The loop over \<^verbatim>\<open>idx\<close> in the in-memory branch of \<^verbatim>\<open>search\<close>.\<close>

fun gather ::
  "string list \<Rightarrow> string list \<Rightarrow> 'm list \<Rightarrow> real list \<Rightarrow> int list \<Rightarrow> py_error + 'm hit list" where
  "gather ids texts metas sims [] = Inr []"
| "gather ids texts metas sims (i # rest) =
     (case py_getitem ids i of
        Inl e \<Rightarrow> Inl e
      | Inr doc_id \<Rightarrow>
         (case py_getitem texts i of
            Inl e \<Rightarrow> Inl e
          | Inr txt \<Rightarrow>
             (case py_getitem metas i of
                Inl e \<Rightarrow> Inl e
              | Inr meta \<Rightarrow>
                 (case py_getitem sims i of
                    Inl e \<Rightarrow> Inl e
                  | Inr sc \<Rightarrow>
                     (case gather ids texts metas sims rest of
                        Inl e \<Rightarrow> Inl e
                      | Inr results \<Rightarrow>
                          Inr (\<lparr>hit_id = Some doc_id, hit_text = Some txt,
                                hit_metadata = Some meta, score = sc\<rparr> # results))))))"

text \<open>
  The in-memory branch of \<^verbatim>\<open>search\<close>. The norm along axis 1 of an array without rows and
  the product of a matrix with a vector of another length raise. Where numpy divides by
  a zero norm and yields NaN or infinity, the similarity below is HOL's \<open>x / 0 = 0\<close>.
\<close>

definition memory_search :: "'m rag_manager \<Rightarrow> real list \<Rightarrow> int \<Rightarrow> py_error + 'm hit list" where
  "memory_search m qvec k =
     (case mem_vecs m of
        None \<Rightarrow> Inr []
      | Some vecs \<Rightarrow>
          if length (mem_ids m) = 0 then Inr []
          else case vecs of
                 [] \<Rightarrow> Inl AxisError
               | r # rs \<Rightarrow>
                   if length r \<noteq> length qvec then Inl ValueError
                   else
                     let sims = map (\<lambda>v. dot v qvec / (l2_norm v * (l2_norm qvec + 1 / 10 ^ 12)))
                                  vecs;
                         idx = py_take k (argsort_desc sims)
                     in gather (mem_ids m) (mem_texts m) (mem_metas m) sims idx)"

text \<open>
  \<^verbatim>\<open>search(query, k)\<close>: \<^verbatim>\<open>np.array(self.embedder([query]), dtype=float)[0]\<close> raises when the
  embedder returns rows of different lengths or no row at all.
\<close>

definition search ::
  "(string list \<Rightarrow> real list list) \<Rightarrow> searcher \<Rightarrow> 'm rag_manager \<Rightarrow> string \<Rightarrow> int
     \<Rightarrow> (py_error + 'm hit list) \<times> 'm rag_manager" where
  "search embedder srch m q k =
     (let m1 = m\<lparr>embedder_calls := embedder_calls m @ [[q]]\<rparr>
      in case np_array (embedder [q]) of
           Inl e \<Rightarrow> (Inl e, m1)
         | Inr [] \<Rightarrow> (Inl IndexError, m1)
         | Inr (qvec # others) \<Rightarrow>
             if backend m1 = Faiss
             then (query srch (faiss_available m1) (col m1) qvec k, m1)
             else (memory_search m1 qvec k, m1))"

definition persist :: "'m rag_manager \<Rightarrow> 'm rag_manager" where
  "persist m = m"

text \<open>
  \<^verbatim>\<open>clear\<close>: on the filesystem backend the collection's files are deleted and the client
  and handle are made again (\<^verbatim>\<open>client\<close> raises when the library is missing); on the
  in-memory store the four fields are reset.
\<close>

definition clear :: "'m rag_manager \<Rightarrow> (py_error + unit) \<times> 'm rag_manager" where
  "clear m =
     (if backend m = Faiss
      then (let m1 = m\<lparr>col := delete_collection (col m)\<rparr>
            in if faiss_available m1 then (Inr (), m1) else (Inl ImportError, m1))
      else (Inr (), m\<lparr>mem_ids := [], mem_texts := [], mem_metas := [], mem_vecs := None\<rparr>))"

section \<open>Guardrail classifier (crew\_ai/guardrails.py)\<close>

subsection \<open>Strings and JSON values\<close>






text \<open>
  What \<^verbatim>\<open>json.loads\<close> returns. An object is the list of its members; the keys of a parsed
  object are distinct. \<^verbatim>\<open>json.loads\<close> itself is the parameter \<open>loads\<close> of the functions
  below: \<open>None\<close> when it raises. Python's \<^verbatim>\<open>None\<close> is \<open>JNull\<close>.
\<close>

datatype json =
  JNull | JBool bool | JInt int | JFloat real | JStr string | JArr "json list"
  | JObj "(string \<times> json) list"

subsection \<open>Finding the first balanced JSON object\<close>

text \<open>
  The inner \<^verbatim>\<open>for j in range(i, n)\<close> of \<^verbatim>\<open>_find_first_json_substring\<close>, on the characters
  from \<open>i\<close> on: the number of characters up to and including the brace that closes the
  object, or \<open>None\<close> when the loop runs to the end.
\<close>

fun scan_object :: "int \<Rightarrow> bool \<Rightarrow> bool \<Rightarrow> string \<Rightarrow> nat option" where
  "scan_object depth in_str esc [] = None"
| "scan_object depth in_str esc (ch # rest) =
     (if in_str then
        (if esc then map_option Suc (scan_object depth in_str False rest)
         else if ch = CHR 0x5C then map_option Suc (scan_object depth in_str True rest)
         else if ch = CHR 0x22 then map_option Suc (scan_object depth False esc rest)
         else map_option Suc (scan_object depth in_str esc rest))
      else
        (if ch = CHR 0x22 then map_option Suc (scan_object depth True esc rest)
         else if ch = CHR ''{'' then map_option Suc (scan_object (depth + 1) in_str esc rest)
         else if ch = CHR ''}'' then
           (if depth - 1 = 0 then Some 1
            else map_option Suc (scan_object (depth - 1) in_str esc rest))
         else map_option Suc (scan_object depth in_str esc rest)))"



subsection \<open>The validation model\<close>







subsection \<open>The client and guardrail\_check\<close>











section \<open>Properties of the ledger\<close>

subsection \<open>Ledger lemmas\<close>

lemma transactions_init_db: "transactions (init_db db) = Some (stored_rows db)"
  by (simp add: init_db_def stored_rows_def split: option.split)



lemma fl64_sum_100: "fl64 (0 + 100) = 100"
  by code_simp

lemma fl64_sum_balance: "fl64 (100 + - (51 / 2)) = 149 / 2"
  by code_simp




subsection \<open>Claims about the ledger\<close>

text \<open>
  C10. \<^verbatim>\<open>get_balance\<close> on an initialized database, for an account that has no
  transactions, returns exactly \<open>0.0\<close>: it neither raises nor returns null. The sum
  aggregate over no rows is null, and \<^verbatim>\<open>or 0.0\<close> turns it into \<open>0.0\<close>. The database may
  hold rows of other accounts.
\<close>

theorem get_balance_no_transactions:
  assumes "\<forall>r\<in>set (stored_rows db). account_id r \<noteq> acct"
  shows "get_balance (init_db db) acct = Inr 0"
  using assms by (simp add: get_balance_def transactions_init_db sql_sum_def)

theorem get_balance_no_transactions_witness:
  "get_balance (init_db \<lparr>transactions = Some [\<lparr>row_id = 1, account_id = ''acct2'', amount = 5,
       txn_type = ''credit'', description = None, timestamp = ''2024-01-01T00:00:00Z''\<rparr>],
       sqlite_sequence = 1\<rparr>) ''acct1'' = Inr 0
   \<and> get_balance (init_db \<lparr>transactions = None, sqlite_sequence = 0\<rparr>) ''acct1'' = Inr 0"
  using get_balance_no_transactions [of "\<lparr>transactions = Some [\<lparr>row_id = 1,
       account_id = ''acct2'', amount = 5, txn_type = ''credit'', description = None,
       timestamp = ''2024-01-01T00:00:00Z''\<rparr>], sqlite_sequence = 1\<rparr>" "''acct1''"]
    get_balance_no_transactions [of "\<lparr>transactions = None, sqlite_sequence = 0\<rparr>" "''acct1''"]
  by (simp add: stored_rows_def)




section \<open>Properties of the filesystem vector store\<close>

subsection \<open>Norms\<close>







lemma length_normalize: "length (l2_normalize v) = length v"
  by (simp add: l2_normalize_def)

subsection \<open>add and query\<close>

lemma np_array_rect:
  "list_all (\<lambda>r. length r = D) embs \<Longrightarrow> np_array embs = Inr embs"
  by (cases embs) (auto simp add: np_array_def list_all_iff)

lemma ncols_normalize_rows: "ncols (normalize_rows (r # rs)) = length r"
  by (simp add: ncols_def normalize_rows_def length_normalize)



lemma getitem_or_none_nonneg:
  "0 \<le> pos \<Longrightarrow>
     getitem_or_none xs pos = Inr (if pos < int (length xs) then Some (xs ! nat pos) else None)"
  by (simp add: getitem_or_none_def py_getitem_def)

lemma collect_total:
  "collect ids texts metas found =
     Inr (map (hit_at ids texts metas) (filter (\<lambda>sp. 0 \<le> snd sp) found))"
proof (induction found)
  case Nil
  then show ?case by simp
next
  case (Cons sp found)
  obtain sc pos where sp: "sp = (sc, pos)" by (cases sp) auto
  show ?case
  proof (cases "pos < 0")
    case True
    with Cons show ?thesis by (simp add: sp)
  next
    case False
    then have "0 \<le> pos" by simp
    with Cons show ?thesis
      by (simp add: sp getitem_or_none_nonneg hit_at_def)
  qed
qed



subsection \<open>Claims about add and query\<close>



lemma l2_norm_eval:
  "l2_norm [0, 0, 2] = 2" "l2_norm [0, 0, 1] = 1" "l2_norm [1, 0] = 1" "l2_norm [3, 4] = 5"
  "l2_norm [0, 0] = 0" "l2_norm [0, 5] = 5" "l2_norm [0, 2] = 2"
  by (simp_all add: l2_norm_def)



lemma query_errors:
  assumes "query srch av fs e k = Inl err"
  shows "err = ImportError \<or> (\<exists>i q. srch i q k = Inl err)"
  using assms
  by (auto simp add: query_def load_ids_texts_metas_def collect_total Let_def
      split: if_splits option.splits sum.splits)



text \<open>
  C9. \<open>query\<close> never raises an out-of-bounds error of its own, whatever positions the
  search returns and however short the side-car sequences are (a corrupt or missing
  side-car file loads as the empty sequence). When the search returns, \<open>query\<close> returns
  one entry for each returned position that is not negative, in order; a field whose
  side-car sequence ends before that position is \<open>None\<close>; positions marked with the
  negative sentinel are skipped. An \<^verbatim>\<open>IndexError\<close> can only come out of the search itself.
\<close>

theorem query_positions_past_the_end:
  "(index_file fs = Stored i \<and> idx_rows i \<noteq> [] \<and> srch i (l2_normalize e) k = Inr found \<longrightarrow>
      query srch True fs e k =
        Inr (map (hit_at (load_list (ids_file fs)) (load_list (texts_file fs))
                    (load_list (metas_file fs)))
               (filter (\<lambda>sp. 0 \<le> snd sp) found)))
   \<and> (query srch av fs e k = Inl IndexError \<longrightarrow> (\<exists>i q. srch i q k = Inl IndexError))"
proof (intro conjI impI)
  assume "index_file fs = Stored i \<and> idx_rows i \<noteq> [] \<and> srch i (l2_normalize e) k = Inr found"
  then show "query srch True fs e k =
        Inr (map (hit_at (load_list (ids_file fs)) (load_list (texts_file fs))
                    (load_list (metas_file fs)))
               (filter (\<lambda>sp. 0 \<le> snd sp) found))"
    by (simp add: query_def load_index_def load_ids_texts_metas_def ntotal_def collect_total)
next
  assume "query srch av fs e k = Inl IndexError"
  from query_errors [OF this] show "\<exists>i q. srch i q k = Inl IndexError"
    by simp
qed

theorem query_positions_past_the_end_witness:
  "query flat_ip_search True
     \<lparr>index_file = Stored \<lparr>idx_d = 2, idx_rows = [[1, 0], [0, 1], [3 / 5, 4 / 5]]\<rparr>,
      ids_file = Stored [''id1''], texts_file = Corrupt,
      metas_file = (Absent :: string list disk_file)\<rparr> [0, 5] 5
   = Inr [\<lparr>hit_id = None, hit_text = None, hit_metadata = None, score = 1\<rparr>,
          \<lparr>hit_id = None, hit_text = None, hit_metadata = None, score = 4 / 5\<rparr>,
          \<lparr>hit_id = Some ''id1'', hit_text = None, hit_metadata = None, score = 0\<rparr>]"
proof -
  have s: "flat_ip_search \<lparr>idx_d = 2, idx_rows = [[1, 0], [0, 1], [3 / 5, 4 / 5]]\<rparr>
             (l2_normalize [0, 5]) 5
           = Inr [(1, 1), (4 / 5, 2), (0, 0),
                  (- 340282346638528859811704183484516925440, - 1),
                  (- 340282346638528859811704183484516925440, - 1)]"
    by (simp add: flat_ip_search_def l2_normalize_def l2_norm_eval clamp_norm_def ntotal_def
        dot_def best_first_def upt_rec numeral_eq_Suc)
  show ?thesis
    using query_positions_past_the_end [where fs = "\<lparr>index_file = Stored \<lparr>idx_d = 2,
          idx_rows = [[1, 0], [0, 1], [3 / 5, 4 / 5]]\<rparr>,
        ids_file = Stored [''id1''], texts_file = Corrupt,
        metas_file = (Absent :: string list disk_file)\<rparr>"
      and i = "\<lparr>idx_d = 2, idx_rows = [[1, 0], [0, 1], [3 / 5, 4 / 5]]\<rparr>"
      and srch = flat_ip_search and e = "[0, 5]" and k = 5 and av = True
      and found = "[(1, 1), (4 / 5, 2), (0, 0),
                  (- 340282346638528859811704183484516925440, - 1),
                  (- 340282346638528859811704183484516925440, - 1)]"] s
    by (simp add: hit_at_def load_list_def)
qed

lemma add_dimension_change:
  assumes ok: "embs \<noteq> []" "list_all (\<lambda>r. length r = D) embs"
    and idx: "load_index fs = Some i" "idx_d i \<noteq> D"
  shows "add True fs ids texts embs metas =
           Inr \<lparr>index_file = Stored \<lparr>idx_d = D, idx_rows = normalize_rows embs\<rparr>,
                ids_file = Stored (load_list (ids_file fs) @ ids),
                texts_file = Stored (load_list (texts_file fs) @ texts),
                metas_file = Stored (load_list (metas_file fs) @ metas)\<rparr>"
proof -
  obtain r rs where e: "embs = r # rs"
    using ok(1) by (cases embs) auto
  have D: "length r = D"
    using ok(2) e by simp
  have arr: "np_array (r # rs) = Inr (r # rs)"
    using np_array_rect [OF ok(2)] e by simp
  show ?thesis
    using idx
    by (simp add: add_def arr load_ids_texts_metas_def ncols_normalize_rows D IndexFlatIP_def
        index_add_def e)
qed

text \<open>
  C1 does not hold of the code. When the dimension changes, \<open>add\<close> replaces the index by a
  new, empty one, but it still extends the side-car sequences it loaded
  (\<open>add_dimension_change\<close>): the old ids, texts and metadatas stay at the front, and
  positions of the new index point at the old documents. Below, a document \<^verbatim>\<open>a\<close> of
  dimension 2 is added to a new collection, then a document \<^verbatim>\<open>b\<close> of dimension 3; the
  index then holds the one row of \<^verbatim>\<open>b\<close>, and a query with \<^verbatim>\<open>b\<close>'s own embedding returns the
  id, text and metadata of \<^verbatim>\<open>a\<close>, with score 1.
\<close>

theorem dimension_change_returns_old_document:
  "add True (new_collection :: (string \<times> string) list collection) [''a''] [''alpha''] [[1, 0]] [[(''tag'', ''old'')]]
     = Inr \<lparr>index_file = Stored \<lparr>idx_d = 2, idx_rows = [[1, 0]]\<rparr>,
            ids_file = Stored [''a''], texts_file = Stored [''alpha''],
            metas_file = Stored [[(''tag'', ''old'')]]\<rparr>
   \<and> add True \<lparr>index_file = Stored \<lparr>idx_d = 2, idx_rows = [[1, 0]]\<rparr>,
            ids_file = Stored [''a''], texts_file = Stored [''alpha''],
            metas_file = Stored [[(''tag'', ''old'')]]\<rparr> [''b''] [''beta''] [[0, 0, 2]] [[(''tag'', ''new'')]]
     = Inr \<lparr>index_file = Stored \<lparr>idx_d = 3, idx_rows = [[0, 0, 1]]\<rparr>,
            ids_file = Stored [''a'', ''b''], texts_file = Stored [''alpha'', ''beta''],
            metas_file = Stored [[(''tag'', ''old'')], [(''tag'', ''new'')]]\<rparr>
   \<and> query flat_ip_search True
        \<lparr>index_file = Stored \<lparr>idx_d = 3, idx_rows = [[0, 0, 1]]\<rparr>,
         ids_file = Stored [''a'', ''b''], texts_file = Stored [''alpha'', ''beta''],
         metas_file = Stored [[(''tag'', ''old'')], [(''tag'', ''new'')]]\<rparr> [0, 0, 2] 1
     = Inr [\<lparr>hit_id = Some ''a'', hit_text = Some ''alpha'', hit_metadata = Some [(''tag'', ''old'')],
             score = 1\<rparr>]"
proof (intro conjI)
  show "add True (new_collection :: (string \<times> string) list collection) [''a''] [''alpha''] [[1, 0]] [[(''tag'', ''old'')]]
     = Inr \<lparr>index_file = Stored \<lparr>idx_d = 2, idx_rows = [[1, 0]]\<rparr>,
            ids_file = Stored [''a''], texts_file = Stored [''alpha''],
            metas_file = Stored [[(''tag'', ''old'')]]\<rparr>"
    by (simp add: add_def new_collection_def load_index_def load_ids_texts_metas_def
        load_list_def np_array_def normalize_rows_def l2_normalize_def l2_norm_eval
        clamp_norm_def ncols_def IndexFlatIP_def index_add_def)
  show "add True \<lparr>index_file = Stored \<lparr>idx_d = 2, idx_rows = [[1, 0]]\<rparr>,
            ids_file = Stored [''a''], texts_file = Stored [''alpha''],
            metas_file = Stored [[(''tag'', ''old'')]]\<rparr> [''b''] [''beta''] [[0, 0, 2]] [[(''tag'', ''new'')]]
     = Inr \<lparr>index_file = Stored \<lparr>idx_d = 3, idx_rows = [[0, 0, 1]]\<rparr>,
            ids_file = Stored [''a'', ''b''], texts_file = Stored [''alpha'', ''beta''],
            metas_file = Stored [[(''tag'', ''old'')], [(''tag'', ''new'')]]\<rparr>"
    by (simp add: add_def load_index_def load_ids_texts_metas_def
        load_list_def np_array_def normalize_rows_def l2_normalize_def l2_norm_eval
        clamp_norm_def ncols_def IndexFlatIP_def index_add_def)
  show "query flat_ip_search True
        \<lparr>index_file = Stored \<lparr>idx_d = 3, idx_rows = [[0, 0, 1]]\<rparr>,
         ids_file = Stored [''a'', ''b''], texts_file = Stored [''alpha'', ''beta''],
         metas_file = Stored [[(''tag'', ''old'')], [(''tag'', ''new'')]]\<rparr> [0, 0, 2] 1
     = Inr [\<lparr>hit_id = Some ''a'', hit_text = Some ''alpha'', hit_metadata = Some [(''tag'', ''old'')],
             score = 1\<rparr>]"
    by (simp add: query_def load_index_def load_ids_texts_metas_def load_list_def ntotal_def
        flat_ip_search_def l2_normalize_def l2_norm_eval clamp_norm_def dot_def best_first_def
        getitem_or_none_def py_getitem_def)
qed

section \<open>Properties of the retrieval manager\<close>

lemma query_empty_index:
  assumes "load_index fs = None \<or> (\<exists>i. load_index fs = Some i \<and> ntotal i = 0)"
  shows "query srch True fs e k = Inr []"
  using assms by (auto simp add: query_def load_ids_texts_metas_def)

lemma search_rag_init:
  assumes "np_array (embedder [q]) = Inr (v # vs)"
    and "load_index fs = None \<or> (\<exists>i. load_index fs = Some i \<and> ntotal i = 0)"
  shows "fst (search embedder srch (rag_init av fs) q k) = Inr []"
  using assms(1) query_empty_index [OF assms(2)]
  by (simp add: search_def rag_init_def memory_search_def)

lemma search_after_clear:
  assumes "np_array (embedder [q]) = Inr (v # vs)"
    and "backend m = Memory \<or> faiss_available m"
  shows "fst (clear m) = Inr ()" and "fst (search embedder srch (snd (clear m)) q k) = Inr []"
proof -
  have e: "query srch True (new_collection :: 'a collection) qv k = Inr []" for qv
    by (rule query_empty_index) (simp add: load_index_def new_collection_def)
  show "fst (clear m) = Inr ()"
    using assms(2) by (cases "backend m") (auto simp add: clear_def Let_def)
  show "fst (search embedder srch (snd (clear m)) q k) = Inr []"
    using assms e
    by (cases "backend m")
      (auto simp add: clear_def Let_def search_def memory_search_def delete_collection_def)
qed

lemma memory_search_embedder_calls:
  "memory_search (m\<lparr>embedder_calls := c\<rparr>) qvec k = memory_search m qvec k"
  by (simp add: memory_search_def split: option.split list.split)

lemma add_documents_calls_embedder:
  "docs \<noteq> [] \<Longrightarrow>
     embedder_calls (snd (add_documents embedder m docs))
       = embedder_calls m @ [map (\<lambda>doc. fst (snd doc)) docs]"
  by (simp add: add_documents_def Let_def split: sum.split option.split)

subsection \<open>Claims about the manager\<close>

text \<open>
  C3. \<^verbatim>\<open>search\<close> on an empty collection returns the empty sequence and raises nothing, for
  every query text and every \<open>k\<close>, given an embedder that returns at least one row for the
  one query text (rows of one length). Empty means: a manager just constructed, on
  either backend, over a directory where the collection's index is absent, unreadable
  or without entries; or a manager just cleared (a manager is on the filesystem backend
  only when the library is available, which the constructor ensures). In particular the
  filesystem backend's \<open>query\<close>, with the library available, returns the empty sequence
  whenever the index file is absent or unreadable or the index has zero entries.
\<close>

theorem search_empty_collection:
  "(np_array (embedder [q]) = Inr (v # vs) \<longrightarrow>
      ((load_index fs = None \<or> (\<exists>i. load_index fs = Some i \<and> ntotal i = 0)) \<longrightarrow>
         fst (search embedder srch (rag_init av fs) q k) = Inr [])
    \<and> ((backend m = Memory \<or> faiss_available m) \<longrightarrow>
         fst (clear m) = Inr () \<and> fst (search embedder srch (snd (clear m)) q k) = Inr []))
   \<and> ((index_file cs = Absent \<or> index_file cs = Corrupt
        \<or> (\<exists>i. index_file cs = Stored i \<and> ntotal i = 0)) \<longrightarrow>
        query srch True cs e k = Inr [])"
proof (intro conjI impI)
  assume "index_file cs = Absent \<or> index_file cs = Corrupt
        \<or> (\<exists>i. index_file cs = Stored i \<and> ntotal i = 0)"
  then have "load_index cs = None \<or> (\<exists>i. load_index cs = Some i \<and> ntotal i = 0)"
    by (auto simp add: load_index_def)
  then show "query srch True cs e k = Inr []"
    by (rule query_empty_index)
qed (simp_all add: search_rag_init search_after_clear)

theorem search_empty_collection_witness:
  "fst (search (\<lambda>ts. map (\<lambda>t. [real (length t), 1]) ts) flat_ip_search
          (rag_init True (new_collection :: string collection)) ''fraud pattern'' 2) = Inr []
   \<and> fst (search (\<lambda>ts. map (\<lambda>t. [real (length t), 1]) ts) flat_ip_search
          (rag_init False (new_collection :: string collection)) ''fraud pattern'' 2) = Inr []
   \<and> fst (clear \<lparr>faiss_available = True, backend = Faiss,
          col = \<lparr>index_file = Stored \<lparr>idx_d = 2, idx_rows = [[1, 0]]\<rparr>,
                 ids_file = Stored [''id1''], texts_file = Stored [''alpha''],
                 metas_file = Stored [''m1'']\<rparr>,
          mem_ids = [], mem_texts = [], mem_metas = [], mem_vecs = None,
          embedder_calls = [[''alpha'']]\<rparr>) = Inr ()
   \<and> fst (search (\<lambda>ts. map (\<lambda>t. [real (length t), 1]) ts) flat_ip_search
          (snd (clear \<lparr>faiss_available = True, backend = Faiss,
             col = \<lparr>index_file = Stored \<lparr>idx_d = 2, idx_rows = [[1, 0]]\<rparr>,
                    ids_file = Stored [''id1''], texts_file = Stored [''alpha''],
                    metas_file = Stored [''m1'']\<rparr>,
             mem_ids = [], mem_texts = [], mem_metas = [], mem_vecs = None,
             embedder_calls = [[''alpha'']]\<rparr>)) ''fraud pattern'' 2) = Inr []
   \<and> query flat_ip_search True
         \<lparr>index_file = Corrupt, ids_file = Stored [''id1''], texts_file = Stored [''alpha''],
          metas_file = Stored [''m1'']\<rparr> [1, 0] 2 = Inr []
   \<and> query flat_ip_search True
         \<lparr>index_file = Stored \<lparr>idx_d = 2, idx_rows = []\<rparr>, ids_file = Stored [''id1''],
          texts_file = Stored [''alpha''], metas_file = Stored [''m1'']\<rparr> [1, 0] 2 = Inr []"
  using search_empty_collection [where embedder = "\<lambda>ts. map (\<lambda>t. [real (length t), 1]) ts"
      and q = "''fraud pattern''" and v = "[13, 1]" and vs = "[]"
      and fs = "new_collection :: string collection" and av = True and srch = flat_ip_search
      and k = 2
      and m = "\<lparr>faiss_available = True, backend = Faiss,
          col = \<lparr>index_file = Stored \<lparr>idx_d = 2, idx_rows = [[1, 0]]\<rparr>,
                 ids_file = Stored [''id1''], texts_file = Stored [''alpha''],
                 metas_file = Stored [''m1'']\<rparr>,
          mem_ids = [], mem_texts = [], mem_metas = [], mem_vecs = None,
          embedder_calls = [[''alpha'']]\<rparr>"
      and cs = "\<lparr>index_file = Corrupt, ids_file = Stored [''id1''],
          texts_file = Stored [''alpha''], metas_file = Stored [''m1'']\<rparr>"
      and e = "[1, 0]"]
    search_empty_collection [where embedder = "\<lambda>ts. map (\<lambda>t. [real (length t), 1]) ts"
      and q = "''fraud pattern''" and v = "[13, 1]" and vs = "[]"
      and fs = "new_collection :: string collection" and av = False and srch = flat_ip_search
      and k = 2 and m = "rag_init False (new_collection :: string collection)"
      and cs = "\<lparr>index_file = Stored \<lparr>idx_d = 2, idx_rows = []\<rparr>, ids_file = Stored [''id1''],
          texts_file = Stored [''alpha''], metas_file = Stored [''m1'']\<rparr>"
      and e = "[1, 0]"]
  by (simp add: np_array_def load_index_def new_collection_def ntotal_def)

text \<open>
  C7. Idempotence of \<^verbatim>\<open>search\<close>. The embedder and the index search are functions of their
  arguments. From every state of the store, \<^verbatim>\<open>search\<close> changes nothing but the record of
  embedder calls, and a second \<^verbatim>\<open>search\<close> with the same query text and the same \<open>k\<close>,
  made in the state the first one left, returns the same result as the first: the same
  entries in the same order, or the same error.
\<close>

theorem search_idempotent:
  "fst (search embedder srch (snd (search embedder srch m q k)) q k)
     = fst (search embedder srch m q k)
   \<and> snd (search embedder srch m q k) = m\<lparr>embedder_calls := embedder_calls m @ [[q]]\<rparr>"
  by (simp add: search_def memory_search_embedder_calls Let_def split: sum.split list.split)

text \<open>
  C8. \<^verbatim>\<open>add_documents\<close> with no documents returns at once: the state it leaves is the
  state it found, with the same ids, texts, metadatas, vectors and files, and with no
  new entry in the record of embedder calls (a call with documents adds one:
  \<open>add_documents_calls_embedder\<close>).
\<close>

theorem add_documents_empty: "add_documents embedder m [] = (Inr (), m)"
  by (simp add: add_documents_def)

section \<open>Properties of the guardrail classifier\<close>

subsection \<open>Extraction and validation\<close>

lemma scan_object_le: "scan_object depth in_str esc s = Some n \<Longrightarrow> n \<le> length s"
  by (induction depth in_str esc s arbitrary: n rule: scan_object.induct)
    (auto split: if_splits)












subsection \<open>Claim about guardrail\_check\<close>



end
